theory Spec2Isabelle
  imports Main
begin

section \<open>The signaling server of latencyReducer\<close>

text \<open>
  The server (\<^verbatim>\<open>server.h\<close>, \<^verbatim>\<open>server.cpp\<close>) keeps two slots, \<^verbatim>\<open>sender\<close> and
  \<^verbatim>\<open>viewer\<close>, each a shared pointer to a websocket stream. \<^verbatim>\<open>server_t::launch\<close>
  accepts TCP connections and starts one detached thread running \<^verbatim>\<open>client_worker\<close>
  per connection. The worker reads text frames in a loop; while the pair is incomplete
  it hands each frame to \<^verbatim>\<open>server_t::log_participants\<close>, which parses it with
  Boost.JSON and stores the connection in the slot named by the \<^verbatim>\<open>role\<close> field.

  The free function \<^verbatim>\<open>launch(addr, port)\<close> at the top of \<^verbatim>\<open>server.cpp\<close> is an
  echo loop that \<^verbatim>\<open>main\<close> never calls (it calls \<^verbatim>\<open>server_t::launch\<close>); it is not
  part of the model.
\<close>

subsection \<open>Data\<close>

text \<open>
  A connection is the websocket stream object created by \<^verbatim>\<open>std::make_shared\<close> in
  \<^verbatim>\<open>launch\<close>; \<^verbatim>\<open>websocket_type\<close> is a shared pointer to it. The model names each
  stream by a number, and a possibly null \<^verbatim>\<open>websocket_type\<close> is an option.
\<close>

type_synonym conn = nat

type_synonym websocket_type = "conn option"

text \<open>\<^verbatim>\<open>struct socket_t\<close>: one private field \<^verbatim>\<open>ws\<close>, initially null.\<close>

record socket_t =
  ws :: websocket_type

definition socket_new :: socket_t where
  "socket_new = \<lparr>ws = None\<rparr>"

text \<open>\<^verbatim>\<open>void set_ws(websocket_type websocket_stream) { ws = std::move(websocket_stream); }\<close>\<close>

definition set_ws :: "websocket_type \<Rightarrow> socket_t \<Rightarrow> socket_t" where
  "set_ws websocket_stream s = s\<lparr>ws := websocket_stream\<rparr>"

text \<open>\<^verbatim>\<open>bool empty() const { return !ws; }\<close>\<close>

definition empty_socket :: "socket_t \<Rightarrow> bool" where
  "empty_socket s = (ws s = None)"

text \<open>
  \<^verbatim>\<open>class server_t\<close>: the two slots. The fields \<^verbatim>\<open>addr\<close> and \<^verbatim>\<open>port\<close> are read
  only by \<^verbatim>\<open>launch\<close> to bind the acceptor and are left out.
\<close>

record server_t =
  sender :: socket_t
  viewer :: socket_t

definition server_new :: server_t where
  "server_new = \<lparr>sender = socket_new, viewer = socket_new\<rparr>"

text \<open>\<^verbatim>\<open>bool everybody() const { return !(sender.empty() || viewer.empty()); }\<close>\<close>

definition everybody :: "server_t \<Rightarrow> bool" where
  "everybody s = (\<not> (empty_socket (sender s) \<or> empty_socket (viewer s)))"

text \<open>
  A JSON value as \<^verbatim>\<open>boost::json::value\<close> holds it. An object is given by its
  key/value pairs; \<^verbatim>\<open>object::operator[]\<close> is the lookup \<^const>\<open>map_of\<close>. The
  payload of a number is never inspected by the server.
\<close>

datatype json =
    JNull
  | JBool bool
  | JNumber int
  | JString string
  | JArray "json list"
  | JObject "(string \<times> json) list"

text \<open>
  A text frame as the worker receives it: the bytes (\<^verbatim>\<open>msg\<close>) and what
  \<^verbatim>\<open>boost::json::parse\<close> makes of them, \<open>None\<close> when the parser throws. The parser
  belongs to the library, so its result comes with the frame.
\<close>

record frame =
  msg :: string
  parsed :: "json option"

text \<open>
  The exceptions that reach the \<^verbatim>\<open>catch\<close> clauses of \<^verbatim>\<open>client_worker\<close>:
  \<^verbatim>\<open>json::parse\<close> on text that is not JSON, \<^verbatim>\<open>as_object()\<close> on a value that is not
  an object, \<^verbatim>\<open>as_string()\<close> on a value that is not a string, and the errors of
  \<^verbatim>\<open>ws->accept()\<close> and \<^verbatim>\<open>ws->read()\<close>: the peer closed the websocket
  (\<^verbatim>\<open>websocket::error::closed\<close>) or any other transport error.
\<close>

datatype exn = ParseError | NotObject | NotString | WsClosed | WsError

text \<open>
  What the server does to the outside. \<open>Stdout\<close> and \<open>Stderr\<close> are the lines written to
  \<^verbatim>\<open>std::cout\<close> and \<^verbatim>\<open>std::cerr\<close> (the text after \<^verbatim>\<open>WS error:\<close> depends on the
  library, so the exception stands for it). \<open>Write c m\<close> is a frame \<open>m\<close> written to
  connection \<open>c\<close>: \<^verbatim>\<open>client_worker\<close> and \<^verbatim>\<open>log_participants\<close> hold no call that
  writes to a websocket, so no transition below produces it.
\<close>

datatype effect = Stdout string | Stderr exn | Write conn string

subsection \<open>\<^verbatim>\<open>server_t::log_participants\<close>\<close>

text \<open>
  \<^verbatim>\<open>
  json::value json_content = json::parse(buf);
  auto role = json_content.as_object()["role"].as_string();
  if (role == "sender") { sender.set_ws(socket); std::cout << "Sender is logged" << std::endl; }
  else if (role == "viewer") { viewer.set_ws(socket); std::cout << "Viewer is logged" << std::endl; }
  \<close>
  \<^verbatim>\<open>operator[]\<close> on a missing key inserts a null value, on which \<^verbatim>\<open>as_string()\<close>
  throws. The whole body runs under the mutex \<^verbatim>\<open>m\<close>. The result is the exception, or
  the new server state with the lines printed.
\<close>

definition log_participants ::
  "frame \<Rightarrow> conn \<Rightarrow> server_t \<Rightarrow> exn + (server_t \<times> effect list)" where
  "log_participants buf socket s =
     (case parsed buf of
        None \<Rightarrow> Inl ParseError
      | Some json_content \<Rightarrow>
          (case json_content of
             JObject kvs \<Rightarrow>
               (case map_of kvs ''role'' of
                  Some (JString role) \<Rightarrow>
                    if role = ''sender'' then
                      Inr (s\<lparr>sender := set_ws (Some socket) (sender s)\<rparr>,
                           [Stdout ''Sender is logged''])
                    else if role = ''viewer'' then
                      Inr (s\<lparr>viewer := set_ws (Some socket) (viewer s)\<rparr>,
                           [Stdout ''Viewer is logged''])
                    else Inr (s, [])
                | _ \<Rightarrow> Inl NotString)
           | _ \<Rightarrow> Inl NotObject))"

subsection \<open>\<^verbatim>\<open>client_worker\<close> and the threads\<close>

text \<open>
  Where the thread of a connection stands:
  \<^item> \<open>Handshaking\<close>: started by \<^verbatim>\<open>launch\<close>, in \<^verbatim>\<open>ws->accept()\<close>;
  \<^item> \<open>AtRead\<close>: in \<^verbatim>\<open>ws->read(buff)\<close> at the top of the loop;
  \<^item> \<open>AtLog f\<close>: it has read \<open>f\<close>, printed it, found \<^verbatim>\<open>!server->everybody()\<close> true,
    and is about to run \<^verbatim>\<open>server->log_participants(msg, ws)\<close> (it may be waiting for
    the mutex);
  \<^item> \<open>Returned\<close>: \<^verbatim>\<open>client_worker\<close> has returned, through one of its \<^verbatim>\<open>catch\<close> clauses.
\<close>

datatype worker = Handshaking | AtRead | AtLog frame | Returned

record relay =
  server :: server_t
  workers :: "conn \<rightharpoonup> worker"
  effects :: "effect list"

definition relay_new :: relay where
  "relay_new = \<lparr>server = server_new, workers = Map.empty, effects = []\<rparr>"

text \<open>
  The \<^verbatim>\<open>catch\<close> clauses: a \<^verbatim>\<open>system_error\<close> whose code is \<^verbatim>\<open>websocket::error::closed\<close>
  prints \<^verbatim>\<open>Client closed websocket\<close> and returns; every other exception prints to
  \<^verbatim>\<open>std::cerr\<close> and the function ends. Neither touches the server.
\<close>

definition catch_clause :: "exn \<Rightarrow> effect list" where
  "catch_clause e = (if e = WsClosed then [Stdout ''Client closed websocket''] else [Stderr e])"

text \<open>
  One step of one thread. The events name the thread that moves and, for a read, what
  arrives:
  \<^item> \<open>Connect c\<close>: \<^verbatim>\<open>launch\<close> accepts a TCP connection, makes the stream \<open>c\<close> and starts
    its worker;
  \<^item> \<open>Accepted c\<close>: \<^verbatim>\<open>ws->accept()\<close> returns;
  \<^item> \<open>Recv c f\<close>: \<^verbatim>\<open>ws->read\<close> returns frame \<open>f\<close>; the worker prints it and evaluates
    \<^verbatim>\<open>!server->everybody()\<close> (outside the mutex);
  \<^item> \<open>Enter c\<close>: the worker runs \<^verbatim>\<open>log_participants\<close> on the frame it holds;
  \<^item> \<open>Fail c e\<close>: \<^verbatim>\<open>ws->accept()\<close> or \<^verbatim>\<open>ws->read\<close> throws \<open>e\<close>.
  An event whose thread is not at that point leaves the state as it is. The line
  \<^verbatim>\<open>Listening...\<close> that \<^verbatim>\<open>launch\<close> prints before each accept is left out.
\<close>

datatype event =
    Connect conn
  | Accepted conn
  | Recv conn frame
  | Enter conn
  | Fail conn exn

definition emit :: "effect list \<Rightarrow> relay \<Rightarrow> relay" where
  "emit es s = s\<lparr>effects := effects s @ es\<rparr>"

definition at :: "conn \<Rightarrow> worker \<Rightarrow> relay \<Rightarrow> relay" where
  "at c w s = s\<lparr>workers := (workers s)(c \<mapsto> w)\<rparr>"

fun step :: "relay \<Rightarrow> event \<Rightarrow> relay" where
  "step s (Connect c) =
     (if workers s c = None
      then emit [Stdout ''Connected user TCP''] (at c Handshaking s)
      else s)"
| "step s (Accepted c) =
     (if workers s c = Some Handshaking
      then emit [Stdout ''Connected user WS''] (at c AtRead s)
      else s)"
| "step s (Recv c f) =
     (if workers s c = Some AtRead
      then (if \<not> everybody (server s)
            then emit [Stdout (msg f)] (at c (AtLog f) s)
            else emit [Stdout (msg f)] s)
      else s)"
| "step s (Enter c) =
     (case workers s c of
        Some (AtLog f) \<Rightarrow>
          (case log_participants f c (server s) of
             Inl e \<Rightarrow> emit (catch_clause e) (at c Returned s)
           | Inr (srv, out) \<Rightarrow> emit out (at c AtRead (s\<lparr>server := srv\<rparr>)))
      | _ \<Rightarrow> s)"
| "step s (Fail c e) =
     (if workers s c = Some Handshaking \<or> workers s c = Some AtRead
      then emit (catch_clause e) (at c Returned s)
      else s)"

definition run :: "relay \<Rightarrow> event list \<Rightarrow> relay" where
  "run = foldl step"

text \<open>
  A stream lives as long as a shared pointer refers to it: the worker's own \<^verbatim>\<open>ws\<close>
  until \<^verbatim>\<open>client_worker\<close> returns, and each slot that holds it. The server never calls
  \<^verbatim>\<open>close\<close>; a connection is closed by the server exactly when the last reference goes
  and the stream is destroyed.
\<close>

definition referenced :: "relay \<Rightarrow> conn \<Rightarrow> bool" where
  "referenced s c =
     ((workers s c \<noteq> None \<and> workers s c \<noteq> Some Returned)
      \<or> ws (sender (server s)) = Some c \<or> ws (viewer (server s)) = Some c)"

definition destroyed :: "relay \<Rightarrow> conn \<Rightarrow> bool" where
  "destroyed s c = (workers s c = Some Returned \<and> \<not> referenced s c)"

subsection \<open>Frames written to connections\<close>

text \<open>The frames the server has written to websockets so far, each with its destination.\<close>

fun written :: "effect \<Rightarrow> (conn \<times> string) list" where
  "written (Write c m) = [(c, m)]"
| "written (Stdout l) = []"
| "written (Stderr e) = []"

definition sent :: "relay \<Rightarrow> (conn \<times> string) list" where
  "sent s = concat (map written (effects s))"

subsection \<open>Reading a frame\<close>

text \<open>
  Member access on a parsed value: \<open>None\<close> when the value is not an object or has no
  such member. An object's list holds each key once, as the parsed object does.
\<close>

definition json_member :: "json \<Rightarrow> string \<Rightarrow> json option" where
  "json_member v k = (case v of JObject kvs \<Rightarrow> map_of kvs k | _ \<Rightarrow> None)"

text \<open>The \<^verbatim>\<open>role\<close> and \<^verbatim>\<open>type\<close> members of a frame, \<open>None\<close> when it has none.\<close>

definition role_of :: "frame \<Rightarrow> json option" where
  "role_of f = (case parsed f of Some v \<Rightarrow> json_member v ''role'' | None \<Rightarrow> None)"

definition type_of :: "frame \<Rightarrow> json option" where
  "type_of f = (case parsed f of Some v \<Rightarrow> json_member v ''type'' | None \<Rightarrow> None)"

text \<open>
  The exception \<^verbatim>\<open>log_participants\<close> throws on a frame whose \<^verbatim>\<open>role\<close> is not a
  string, as a function of the frame alone.
\<close>

definition thrown :: "frame \<Rightarrow> exn" where
  "thrown f =
     (case parsed f of
        None \<Rightarrow> ParseError
      | Some (JObject kvs) \<Rightarrow> NotString
      | Some _ \<Rightarrow> NotObject)"

text \<open>No worker stands between the test of \<^verbatim>\<open>everybody()\<close> and \<^verbatim>\<open>log_participants\<close>.\<close>

definition quiescent :: "relay \<Rightarrow> bool" where
  "quiescent s = (\<forall>c f. workers s c \<noteq> Some (AtLog f))"

section \<open>Sample frames\<close>

text \<open>Frames of the protocol, and some that are not, used as concrete inputs below.\<close>

definition join_sender :: frame where
  \<open>join_sender =
     \<lparr>msg = ''{"type":"join","role":"sender"}'',
      parsed = Some (JObject [(''type'', JString ''join''), (''role'', JString ''sender'')])\<rparr>\<close>

definition join_viewer :: frame where
  \<open>join_viewer =
     \<lparr>msg = ''{"type":"join","role":"viewer"}'',
      parsed = Some (JObject [(''type'', JString ''join''), (''role'', JString ''viewer'')])\<rparr>\<close>

definition join_admin :: frame where
  \<open>join_admin =
     \<lparr>msg = ''{"type":"join","role":"admin"}'',
      parsed = Some (JObject [(''type'', JString ''join''), (''role'', JString ''admin'')])\<rparr>\<close>

definition sdp_offer :: frame where
  \<open>sdp_offer =
     \<lparr>msg = ''{"type":"offer","sdp":"v=0..."}'',
      parsed = Some (JObject [(''type'', JString ''offer''), (''sdp'', JString ''v=0...'')])\<rparr>\<close>

definition sdp_answer :: frame where
  \<open>sdp_answer =
     \<lparr>msg = ''{"type":"answer","sdp":"v=0..."}'',
      parsed = Some (JObject [(''type'', JString ''answer''), (''sdp'', JString ''v=0...'')])\<rparr>\<close>

definition ice_candidate :: "string \<Rightarrow> frame" where
  \<open>ice_candidate a =
     \<lparr>msg = ''{"type":"candidate","candidate":{"candidate":"'' @ a @ ''"}}'',
      parsed = Some (JObject [(''type'', JString ''candidate''),
                              (''candidate'', JObject [(''candidate'', JString a)])])\<rparr>\<close>

definition keepalive :: frame where
  \<open>keepalive =
     \<lparr>msg = ''{"type":"ping"}'',
      parsed = Some (JObject [(''type'', JString ''ping'')])\<rparr>\<close>

definition ping_as_sender :: frame where
  \<open>ping_as_sender =
     \<lparr>msg = ''{"type":"ping","role":"sender"}'',
      parsed = Some (JObject [(''type'', JString ''ping''), (''role'', JString ''sender'')])\<rparr>\<close>

definition offer_as_sender :: frame where
  \<open>offer_as_sender =
     \<lparr>msg = ''{"type":"offer","role":"sender","sdp":"v=0..."}'',
      parsed = Some (JObject [(''type'', JString ''offer''), (''role'', JString ''sender''),
                              (''sdp'', JString ''v=0...'')])\<rparr>\<close>

definition garbage :: frame where
  \<open>garbage = \<lparr>msg = ''hello'', parsed = None\<rparr>\<close>

section \<open>Sample runs\<close>

text \<open>Connection 1 joins as sender, connection 2 as viewer, each frame handled at once.\<close>

definition pairing :: "event list" where
  "pairing =
     [Connect 1, Accepted 1, Recv 1 join_sender, Enter 1,
      Connect 2, Accepted 2, Recv 2 join_viewer, Enter 2]"

text \<open>
  Scenario A of the specification: the sender joins and sends its offer, then the viewer
  joins.
\<close>

definition scenario_A :: "event list" where
  "scenario_A =
     [Connect 1, Accepted 1, Recv 1 join_sender, Enter 1, Recv 1 sdp_offer, Enter 1,
      Connect 2, Accepted 2, Recv 2 join_viewer, Enter 2]"




text \<open>
  Three threads: connection 1 is the sender; the worker of connection 2 reads a join as
  sender and passes the test of \<^verbatim>\<open>everybody()\<close> while the viewer slot is empty; before
  it runs \<^verbatim>\<open>log_participants\<close>, connection 3 joins as viewer.
\<close>

definition overtaken :: "event list" where
  "overtaken =
     [Connect 1, Accepted 1, Recv 1 join_sender, Enter 1,
      Connect 2, Accepted 2, Connect 3, Accepted 3,
      Recv 2 join_sender,
      Recv 3 join_viewer, Enter 3]"

section \<open>Properties of the server\<close>

subsection \<open>Runs\<close>

lemma run_Nil [simp]: "run s [] = s"
  by (simp add: run_def)

lemma run_Cons [simp]: "run s (e # es) = run (step s e) es"
  by (simp add: run_def)

lemma run_append: "run s (xs @ ys) = run (run s xs) ys"
  by (simp add: run_def)

lemma run_snoc: "run s (xs @ [e]) = step (run s xs) e"
  by (simp add: run_def)

subsection \<open>What \<^verbatim>\<open>log_participants\<close> does with a frame\<close>

lemma log_participants_role:
  assumes "role_of f = Some (JString r)"
  shows "log_participants f c s =
           (if r = ''sender'' then
              Inr (s\<lparr>sender := set_ws (Some c) (sender s)\<rparr>, [Stdout ''Sender is logged''])
            else if r = ''viewer'' then
              Inr (s\<lparr>viewer := set_ws (Some c) (viewer s)\<rparr>, [Stdout ''Viewer is logged''])
            else Inr (s, []))"
  using assms
  by (auto simp: log_participants_def role_of_def json_member_def split: option.splits json.splits)

lemma log_participants_throws:
  assumes "\<forall>r. role_of f \<noteq> Some (JString r)"
  shows "log_participants f c s = Inl (thrown f)"
proof (cases "parsed f")
  case None
  then show ?thesis by (simp add: log_participants_def thrown_def)
next
  case (Some v)
  show ?thesis
  proof (cases v)
    case (JObject kvs)
    with Some assms have "\<forall>r. map_of kvs ''role'' \<noteq> Some (JString r)"
      by (simp add: role_of_def json_member_def)
    with Some JObject show ?thesis
      by (simp add: log_participants_def thrown_def split: option.splits json.splits)
  qed (use Some in \<open>simp_all add: log_participants_def thrown_def\<close>)
qed

lemma log_participants_writes_nothing:
  assumes "log_participants f c s = Inr (s', out)"
  shows "concat (map written out) = []"
  using assms
  by (auto simp: log_participants_def split: option.splits json.splits if_splits)

lemma step_Enter_throws:
  assumes "workers s c = Some (AtLog f)" and "\<forall>r. role_of f \<noteq> Some (JString r)"
  shows "step s (Enter c) = emit (catch_clause (thrown f)) (at c Returned s)"
  using assms by (simp add: log_participants_throws)

lemma step_Recv_paired:
  assumes "workers s c = Some AtRead" and "everybody (server s)"
  shows "step s (Recv c f) = emit [Stdout (msg f)] s"
  using assms by simp

lemma step_Recv_unpaired:
  assumes "workers s c = Some AtRead" and "\<not> everybody (server s)"
  shows "step s (Recv c f) = emit [Stdout (msg f)] (at c (AtLog f) s)"
  using assms by simp

subsection \<open>The server writes to no connection\<close>

lemma sent_emit: "sent (emit es s) = sent s @ concat (map written es)"
  by (simp add: sent_def emit_def)

lemma sent_at [simp]: "sent (at c w s) = sent s"
  by (simp add: sent_def at_def)

lemma sent_server_update [simp]: "sent (s\<lparr>server := srv\<rparr>) = sent s"
  by (simp add: sent_def)

lemma written_catch_clause [simp]: "concat (map written (catch_clause e)) = []"
  by (simp add: catch_clause_def)

lemma sent_step: "sent (step s ev) = sent s"
proof (cases ev)
  case (Enter c)
  show ?thesis
  proof (cases "workers s c")
    case None
    with Enter show ?thesis by simp
  next
    case (Some w)
    with Enter show ?thesis
      by (cases w)
         (auto simp: sent_emit dest: log_participants_writes_nothing split: sum.splits)
  qed
qed (simp_all add: sent_emit)

lemma sent_run: "sent (run s evs) = sent s"
  by (induction evs arbitrary: s) (simp_all add: sent_step)

lemma sent_relay_new [simp]: "sent relay_new = []"
  by (simp add: sent_def relay_new_def)

subsection \<open>Once both slots are occupied\<close>

lemma quiescent_at:
  assumes "quiescent s" and "\<And>f. w \<noteq> AtLog f"
  shows "quiescent (at c w s)"
  using assms by (auto simp: quiescent_def at_def)

lemma quiescent_emit [simp]: "quiescent (emit es s) = quiescent s"
  by (simp add: quiescent_def emit_def)

lemma server_emit [simp]: "server (emit es s) = server s"
  by (simp add: emit_def)

lemma server_at [simp]: "server (at c w s) = server s"
  by (simp add: at_def)

lemma workers_emit [simp]: "workers (emit es s) = workers s"
  by (simp add: emit_def)

lemma workers_at [simp]: "workers (at c w s) = (workers s)(c \<mapsto> w)"
  by (simp add: at_def)

lemma effects_emit [simp]: "effects (emit es s) = effects s @ es"
  by (simp add: emit_def)

lemma effects_at [simp]: "effects (at c w s) = effects s"
  by (simp add: at_def)

lemma step_paired:
  assumes "everybody (server s)" and "quiescent s"
  shows "server (step s ev) = server s \<and> quiescent (step s ev)"
proof (cases ev)
  case (Enter c)
  from assms(2) have "\<And>f. workers s c \<noteq> Some (AtLog f)"
    by (simp add: quiescent_def)
  then have "step s (Enter c) = s"
    by (auto split: option.splits worker.splits)
  with Enter assms show ?thesis by simp
qed (use assms in \<open>auto intro: quiescent_at\<close>)

lemma run_paired:
  assumes "everybody (server s)" and "quiescent s"
  shows "server (run s evs) = server s \<and> quiescent (run s evs)"
  using assms
proof (induction evs arbitrary: s)
  case Nil
  then show ?case by simp
next
  case (Cons ev evs)
  from step_paired [OF Cons.prems] have "server (step s ev) = server s" "quiescent (step s ev)"
    by simp_all
  with Cons.IH [of "step s ev"] Cons.prems show ?case by simp
qed

lemmas frames =
  join_sender_def join_viewer_def join_admin_def sdp_offer_def sdp_answer_def ice_candidate_def
  keepalive_def ping_as_sender_def offer_as_sender_def garbage_def

lemmas unfold_relay =
  relay_new_def server_new_def socket_new_def emit_def at_def everybody_def
  empty_socket_def set_ws_def log_participants_def catch_clause_def

lemma run_pairing:
  "run relay_new pairing =
     \<lparr>server = \<lparr>sender = \<lparr>ws = Some 1\<rparr>, viewer = \<lparr>ws = Some 2\<rparr>\<rparr>,
      workers = [1 \<mapsto> AtRead, 2 \<mapsto> AtRead],
      effects =
        [Stdout ''Connected user TCP'', Stdout ''Connected user WS'',
         Stdout (msg join_sender), Stdout ''Sender is logged'',
         Stdout ''Connected user TCP'', Stdout ''Connected user WS'',
         Stdout (msg join_viewer), Stdout ''Viewer is logged'']\<rparr>"
  by (simp add: pairing_def unfold_relay frames)

lemma quiescent_pairing: "quiescent (run relay_new pairing)"
  by (simp add: run_pairing quiescent_def)

lemma everybody_pairing: "everybody (server (run relay_new pairing))"
  by (simp add: run_pairing everybody_def empty_socket_def)

subsection \<open>The pair, once complete\<close>

text \<open>
  C9. Once both slots are occupied the server is not to change either slot again; the
  guard \<^verbatim>\<open>if (!server->everybody())\<close> is there for that. The guard is tested outside
  the mutex that \<^verbatim>\<open>log_participants\<close> takes, so a worker that tested it before the
  pair was complete still registers its connection afterwards. In the run \<open>overtaken\<close>
  both slots are occupied, the sender being connection 1, and the next step of
  connection 2's worker makes connection 2 the sender.
\<close>

theorem paired_slot_overwritten:
  "everybody (server (run relay_new overtaken)) \<and>
   ws (sender (server (run relay_new overtaken))) = Some 1 \<and>
   ws (sender (server (run relay_new (overtaken @ [Enter 2])))) = Some 2"
  by (simp add: overtaken_def unfold_relay frames)

text \<open>
  What the guard does achieve: a frame read while both slots are occupied, a join for
  either role included, is only printed, and neither slot, no worker and no other part
  of the state changes. If, at a moment when both slots are occupied, no worker stands
  between its test of \<^verbatim>\<open>everybody()\<close> and \<^verbatim>\<open>log_participants\<close>, then no later step of
  any thread changes either slot.
\<close>

theorem paired_slots_frozen:
  assumes "everybody (server s)"
  shows "(workers s c = Some AtRead \<longrightarrow> step s (Recv c f) = emit [Stdout (msg f)] s) \<and>
         (quiescent s \<longrightarrow> server (run s evs) = server s)"
  using assms run_paired [of s evs] by simp

theorem paired_slots_frozen_witness:
  "step (run relay_new pairing) (Recv 2 join_sender) =
     emit [Stdout (msg join_sender)] (run relay_new pairing) \<and>
   server (run (run relay_new pairing)
            [Connect 3, Accepted 3, Recv 3 join_sender, Enter 3, Recv 1 join_viewer,
             Fail 2 WsClosed]) =
     server (run relay_new pairing)"
proof -
  have "workers (run relay_new pairing) 2 = Some AtRead"
    by (simp add: run_pairing)
  with quiescent_pairing show ?thesis
    using paired_slots_frozen [OF everybody_pairing, of 2 join_sender
      "[Connect 3, Accepted 3, Recv 3 join_sender, Enter 3, Recv 1 join_viewer,
        Fail 2 WsClosed]"]
    by blast
qed

subsection \<open>C1: offers\<close>

text \<open>
  C1 as stated: an offer of the sender reaches the viewer, at once or when the viewer
  joins. In scenario A both connections end up registered, no frame at all has been
  written to the viewer or to anyone else, and the sender's worker has returned: the
  offer has no \<^verbatim>\<open>role\<close>, so \<^verbatim>\<open>log_participants\<close> threw on it. An offer sent when both
  slots are occupied is not written to the viewer either.
\<close>

theorem offer_not_delivered:
  "ws (sender (server (run relay_new scenario_A))) = Some 1 \<and>
   ws (viewer (server (run relay_new scenario_A))) = Some 2 \<and>
   (2, msg sdp_offer) \<notin> set (sent (run relay_new scenario_A)) \<and>
   workers (run relay_new scenario_A) 1 = Some Returned \<and>
   (2, msg sdp_offer) \<notin> set (sent (run relay_new (pairing @ [Recv 1 sdp_offer, Enter 1])))"
  by (simp add: sent_run) (simp add: scenario_A_def unfold_relay frames)

text \<open>
  C1, amended. An offer is never relayed: in every run the server writes no frame to any
  connection. An offer in the protocol's form (an object with \<^verbatim>\<open>type\<close> \<^verbatim>\<open>offer\<close> and no
  \<^verbatim>\<open>role\<close>) that is read while both slots are occupied is only printed; read while a
  slot is empty it is not held as a pending offer: \<^verbatim>\<open>log_participants\<close> throws on it,
  the worker of the connection that sent it returns, and both slots stay as they were.
\<close>

theorem offer_never_relayed:
  assumes "type_of f = Some (JString ''offer'')" and "role_of f = None"
  shows "sent (run relay_new evs) = [] \<and>
         (workers s c = Some AtRead \<and> everybody (server s) \<longrightarrow>
            step s (Recv c f) = emit [Stdout (msg f)] s) \<and>
         (workers s c = Some AtRead \<and> \<not> everybody (server s) \<longrightarrow>
            run s [Recv c f, Enter c] = emit [Stdout (msg f), Stderr NotString] (at c Returned s))"
proof -
  from assms(1) obtain kvs where "parsed f = Some (JObject kvs)"
    by (auto simp: type_of_def json_member_def split: option.splits json.splits)
  then have thrown: "thrown f = NotString"
    by (simp add: thrown_def)
  from assms(2) have norole: "\<forall>r. role_of f \<noteq> Some (JString r)"
    by simp
  have "run s [Recv c f, Enter c] = emit [Stdout (msg f), Stderr NotString] (at c Returned s)"
    if "workers s c = Some AtRead" "\<not> everybody (server s)"
    using that log_participants_throws [OF norole, of c "server s"]
    by (simp add: thrown) (simp add: emit_def at_def catch_clause_def)
  then show ?thesis
    by (simp add: sent_run)
qed

theorem offer_never_relayed_witness:
  "sent (run relay_new scenario_A) = [] \<and>
   step (run relay_new pairing) (Recv 1 sdp_offer) = emit [Stdout (msg sdp_offer)] (run relay_new pairing) \<and>
   run (run relay_new [Connect 1, Accepted 1, Recv 1 join_sender, Enter 1]) [Recv 1 sdp_offer, Enter 1] =
     emit [Stdout (msg sdp_offer), Stderr NotString]
       (at 1 Returned (run relay_new [Connect 1, Accepted 1, Recv 1 join_sender, Enter 1]))"
proof -
  have f: "type_of sdp_offer = Some (JString ''offer'')" "role_of sdp_offer = None"
    by (simp_all add: type_of_def role_of_def json_member_def sdp_offer_def)
  have p: "workers (run relay_new pairing) 1 = Some AtRead"
    by (simp add: run_pairing)
  have s: "workers (run relay_new [Connect 1, Accepted 1, Recv 1 join_sender, Enter 1]) 1 = Some AtRead"
    "\<not> everybody (server (run relay_new [Connect 1, Accepted 1, Recv 1 join_sender, Enter 1]))"
    by (simp_all add: unfold_relay frames)
  from offer_never_relayed [OF f, of scenario_A "run relay_new pairing" 1]
    offer_never_relayed
      [OF f, of scenario_A "run relay_new [Connect 1, Accepted 1, Recv 1 join_sender, Enter 1]" 1]
    everybody_pairing p s
  show ?thesis by blast
qed

subsection \<open>C10: a role that is neither sender nor viewer\<close>

text \<open>
  C10. A frame handled while the pair is incomplete that parses as a JSON object whose
  \<^verbatim>\<open>role\<close> is a string other than \<^verbatim>\<open>sender\<close> and \<^verbatim>\<open>viewer\<close> leaves both slots as they
  are: \<^verbatim>\<open>log_participants\<close> returns the server unchanged and prints nothing, and the
  worker that ran it goes back to reading with both slots untouched.
\<close>

theorem unknown_role_keeps_slots:
  assumes "role_of f = Some (JString r)" and "r \<noteq> ''sender''" and "r \<noteq> ''viewer''"
  shows "log_participants f c s = Inr (s, []) \<and>
         (workers t c = Some (AtLog f) \<longrightarrow>
            server (step t (Enter c)) = server t \<and> workers (step t (Enter c)) c = Some AtRead)"
  using assms by (simp add: log_participants_role)

theorem unknown_role_keeps_slots_witness:
  "log_participants join_admin 2 (server (run relay_new [Connect 1, Accepted 1, Recv 1 join_sender, Enter 1]))
     = Inr (server (run relay_new [Connect 1, Accepted 1, Recv 1 join_sender, Enter 1]), []) \<and>
   server (step (run relay_new [Connect 2, Accepted 2, Recv 2 join_admin]) (Enter 2))
     = server (run relay_new [Connect 2, Accepted 2, Recv 2 join_admin]) \<and>
   workers (step (run relay_new [Connect 2, Accepted 2, Recv 2 join_admin]) (Enter 2)) 2 = Some AtRead"
proof -
  have f: "role_of join_admin = Some (JString ''admin'')" "''admin'' \<noteq> ''sender''"
    "''admin'' \<noteq> ''viewer''"
    by (simp_all add: role_of_def json_member_def join_admin_def)
  have w: "workers (run relay_new [Connect 2, Accepted 2, Recv 2 join_admin]) 2 = Some (AtLog join_admin)"
    by (simp add: unfold_relay)
  from unknown_role_keeps_slots [OF f, of 2
      "server (run relay_new [Connect 1, Accepted 1, Recv 1 join_sender, Enter 1])"
      "run relay_new [Connect 2, Accepted 2, Recv 2 join_admin]"] w
  show ?thesis by blast
qed

subsection \<open>C5: answers\<close>

text \<open>
  C5 as stated: an answer of the viewer is forwarded to the sender when the sender slot
  is occupied. After \<open>pairing\<close> the sender slot holds connection 1; the viewer's answer
  is printed and nothing is written to connection 1.
\<close>

theorem answer_not_forwarded:
  "ws (sender (server (run relay_new pairing))) = Some 1 \<and>
   (1, msg sdp_answer) \<notin> set (sent (run relay_new (pairing @ [Recv 2 sdp_answer, Enter 2]))) \<and>
   run relay_new (pairing @ [Recv 2 sdp_answer, Enter 2]) =
     emit [Stdout (msg sdp_answer)] (run relay_new pairing)"
proof (intro conjI)
  show "ws (sender (server (run relay_new pairing))) = Some 1"
    by (simp add: run_pairing)
  show "(1, msg sdp_answer) \<notin> set (sent (run relay_new (pairing @ [Recv 2 sdp_answer, Enter 2])))"
    by (simp add: sent_run)
  show "run relay_new (pairing @ [Recv 2 sdp_answer, Enter 2]) =
      emit [Stdout (msg sdp_answer)] (run relay_new pairing)"
    by (simp add: run_append run_pairing everybody_def empty_socket_def)
qed

text \<open>
  C5, amended. An answer is never forwarded to the sender, whether the sender slot is
  occupied or empty, and it is neither buffered nor delivered later: in no run is the
  answer written to any connection. Read while both slots are occupied it is only
  printed. Read while the sender slot is empty, an answer in the protocol's form (an
  object with \<^verbatim>\<open>type\<close> \<^verbatim>\<open>answer\<close> and no \<^verbatim>\<open>role\<close>) makes \<^verbatim>\<open>log_participants\<close> throw:
  the exception is printed, the worker of the connection that sent the answer returns,
  and both slots stay as they were.
\<close>

theorem answer_never_forwarded:
  assumes "type_of f = Some (JString ''answer'')" and "role_of f = None"
  shows "(\<forall>d. (d, msg f) \<notin> set (sent (run relay_new evs))) \<and>
         (workers s c = Some AtRead \<and> everybody (server s) \<longrightarrow>
            run s [Recv c f, Enter c] = emit [Stdout (msg f)] s) \<and>
         (workers s c = Some AtRead \<and> ws (sender (server s)) = None \<longrightarrow>
            server (run s [Recv c f, Enter c]) = server s \<and>
            workers (run s [Recv c f, Enter c]) = (workers s)(c \<mapsto> Returned) \<and>
            effects (run s [Recv c f, Enter c]) = effects s @ [Stdout (msg f), Stderr NotString])"
proof -
  from assms(1) obtain kvs where "parsed f = Some (JObject kvs)"
    by (auto simp: type_of_def json_member_def split: option.splits json.splits)
  then have thrown: "thrown f = NotString"
    by (simp add: thrown_def)
  from assms(2) have norole: "\<forall>r. role_of f \<noteq> Some (JString r)"
    by simp
  have paired: "run s [Recv c f, Enter c] = emit [Stdout (msg f)] s"
    if "workers s c = Some AtRead" "everybody (server s)"
    using that by simp
  have empty: "server (run s [Recv c f, Enter c]) = server s \<and>
      workers (run s [Recv c f, Enter c]) = (workers s)(c \<mapsto> Returned) \<and>
      effects (run s [Recv c f, Enter c]) = effects s @ [Stdout (msg f), Stderr NotString]"
    if "workers s c = Some AtRead" "ws (sender (server s)) = None"
    using that log_participants_throws [OF norole, of c "server s"]
    by (simp add: thrown everybody_def empty_socket_def catch_clause_def)
  show ?thesis
    using paired empty by (simp add: sent_run)
qed

theorem answer_never_forwarded_witness:
  "(\<forall>d. (d, msg sdp_answer) \<notin> set (sent (run relay_new (pairing @ [Recv 2 sdp_answer, Enter 2])))) \<and>
   run (run relay_new pairing) [Recv 2 sdp_answer, Enter 2] =
     emit [Stdout (msg sdp_answer)] (run relay_new pairing) \<and>
   server (run (run relay_new [Connect 2, Accepted 2, Recv 2 join_viewer, Enter 2])
             [Recv 2 sdp_answer, Enter 2]) =
     server (run relay_new [Connect 2, Accepted 2, Recv 2 join_viewer, Enter 2]) \<and>
   workers (run (run relay_new [Connect 2, Accepted 2, Recv 2 join_viewer, Enter 2])
             [Recv 2 sdp_answer, Enter 2]) =
     (workers (run relay_new [Connect 2, Accepted 2, Recv 2 join_viewer, Enter 2]))(2 \<mapsto> Returned) \<and>
   effects (run (run relay_new [Connect 2, Accepted 2, Recv 2 join_viewer, Enter 2])
             [Recv 2 sdp_answer, Enter 2]) =
     effects (run relay_new [Connect 2, Accepted 2, Recv 2 join_viewer, Enter 2]) @
       [Stdout (msg sdp_answer), Stderr NotString]"
proof -
  have f: "type_of sdp_answer = Some (JString ''answer'')" "role_of sdp_answer = None"
    by (simp_all add: type_of_def role_of_def json_member_def sdp_answer_def)
  have p: "workers (run relay_new pairing) 2 = Some AtRead"
    by (simp add: run_pairing)
  have v: "workers (run relay_new [Connect 2, Accepted 2, Recv 2 join_viewer, Enter 2]) 2 = Some AtRead"
    "ws (sender (server (run relay_new [Connect 2, Accepted 2, Recv 2 join_viewer, Enter 2]))) = None"
    by (simp_all add: unfold_relay frames)
  from answer_never_forwarded [OF f, of "pairing @ [Recv 2 sdp_answer, Enter 2]" "run relay_new pairing" 2]
    answer_never_forwarded [OF f, of "pairing @ [Recv 2 sdp_answer, Enter 2]"
      "run relay_new [Connect 2, Accepted 2, Recv 2 join_viewer, Enter 2]" 2]
    everybody_pairing p v
  show ?thesis by blast
qed

subsection \<open>C2: a second join for a role\<close>

lemma step_Enter_sender:
  assumes "workers s c = Some (AtLog f)" and "role_of f = Some (JString ''sender'')"
  shows "step s (Enter c) =
           emit [Stdout ''Sender is logged'']
             (at c AtRead (s\<lparr>server := (server s)\<lparr>sender := set_ws (Some c) (sender (server s))\<rparr>\<rparr>))"
  using assms by (simp add: log_participants_role)

lemma step_Enter_viewer:
  assumes "workers s c = Some (AtLog f)" and "role_of f = Some (JString ''viewer'')"
  shows "step s (Enter c) =
           emit [Stdout ''Viewer is logged'']
             (at c AtRead (s\<lparr>server := (server s)\<lparr>viewer := set_ws (Some c) (viewer (server s))\<rparr>\<rparr>))"
  using assms by (simp add: log_participants_role)





subsection \<open>C4: frames that are not a JSON object\<close>

lemma step_Returned:
  assumes "workers s c = Some Returned"
  shows "step s (Recv c g) = s" and "step s (Enter c) = s" and "step s (Fail c e) = s"
    and "step s (Accepted c) = s" and "step s (Connect c) = s"
  using assms by simp_all

text \<open>
  C4 as stated: a frame that cannot be parsed is dropped, and the connection and its
  handler go on. A first frame \<^verbatim>\<open>hello\<close> from connection 1 makes \<^verbatim>\<open>json::parse\<close>
  throw inside \<^verbatim>\<open>log_participants\<close>; the exception leaves the loop of
  \<^verbatim>\<open>client_worker\<close>, the worker returns and the stream, referenced by nobody, is
  destroyed. A join that follows on the same connection has no effect.
\<close>

theorem bad_frame_ends_worker:
  "workers (run relay_new [Connect 1, Accepted 1, Recv 1 garbage, Enter 1]) 1 = Some Returned \<and>
   destroyed (run relay_new [Connect 1, Accepted 1, Recv 1 garbage, Enter 1]) 1 \<and>
   run relay_new ([Connect 1, Accepted 1, Recv 1 garbage, Enter 1] @ [Recv 1 join_sender, Enter 1]) =
     run relay_new [Connect 1, Accepted 1, Recv 1 garbage, Enter 1]"
  by (simp add: unfold_relay frames destroyed_def referenced_def)

text \<open>
  C4, amended. A frame that is not JSON, or is JSON but not an object, is only printed
  when it is read while both slots are occupied, and the worker goes on reading. When it
  is handled while a slot is empty, \<^verbatim>\<open>log_participants\<close> throws (\<open>ParseError\<close> or
  \<open>NotObject\<close>), the exception is printed, both slots stay as they were, and the worker
  of that connection returns: from then on no frame, close or error of the connection
  has any effect.
\<close>

theorem undecodable_frame:
  assumes "\<forall>kvs. parsed f \<noteq> Some (JObject kvs)"
  shows "(workers s c = Some AtRead \<and> everybody (server s) \<longrightarrow>
            step s (Recv c f) = emit [Stdout (msg f)] s) \<and>
         (workers s c = Some (AtLog f) \<longrightarrow>
            step s (Enter c) = emit [Stderr (thrown f)] (at c Returned s) \<and>
            (thrown f = ParseError \<or> thrown f = NotObject) \<and>
            run (step s (Enter c)) (Recv c g # Enter c # Fail c e # evs) = run (step s (Enter c)) evs)"
proof -
  from assms have norole: "\<forall>r. role_of f \<noteq> Some (JString r)"
    by (auto simp: role_of_def json_member_def split: option.splits json.splits)
  from assms have kind: "thrown f = ParseError \<or> thrown f = NotObject"
    by (auto simp: thrown_def split: option.splits json.splits)
  then have clause: "catch_clause (thrown f) = [Stderr (thrown f)]"
    by (auto simp: catch_clause_def)
  have "step s (Enter c) = emit [Stderr (thrown f)] (at c Returned s) \<and>
      run (step s (Enter c)) (Recv c g # Enter c # Fail c e # evs) = run (step s (Enter c)) evs"
    if w: "workers s c = Some (AtLog f)"
  proof -
    have st: "step s (Enter c) = emit [Stderr (thrown f)] (at c Returned s)"
      using step_Enter_throws [OF w norole] clause by simp
    then have "workers (step s (Enter c)) c = Some Returned"
      by (simp del: step.simps)
    then show ?thesis
      using st by (simp add: step_Returned del: step.simps)
  qed
  with kind show ?thesis
    by simp
qed

theorem undecodable_frame_witness:
  "step (run relay_new pairing) (Recv 1 garbage) = emit [Stdout (msg garbage)] (run relay_new pairing) \<and>
   step (run relay_new [Connect 1, Accepted 1, Recv 1 garbage]) (Enter 1) =
     emit [Stderr (thrown garbage)] (at 1 Returned (run relay_new [Connect 1, Accepted 1, Recv 1 garbage])) \<and>
   (thrown garbage = ParseError \<or> thrown garbage = NotObject) \<and>
   run (step (run relay_new [Connect 1, Accepted 1, Recv 1 garbage]) (Enter 1))
       (Recv 1 join_sender # Enter 1 # Fail 1 WsClosed # [Connect 2]) =
     run (step (run relay_new [Connect 1, Accepted 1, Recv 1 garbage]) (Enter 1)) [Connect 2]"
proof -
  have f: "\<forall>kvs. parsed garbage \<noteq> Some (JObject kvs)"
    by (simp add: garbage_def)
  have p: "workers (run relay_new pairing) 1 = Some AtRead"
    by (simp add: run_pairing)
  have w: "workers (run relay_new [Connect 1, Accepted 1, Recv 1 garbage]) 1 = Some (AtLog garbage)"
    by (simp add: unfold_relay)
  from undecodable_frame [OF f, of "run relay_new pairing" 1]
    undecodable_frame [OF f, of "run relay_new [Connect 1, Accepted 1, Recv 1 garbage]" 1
      join_sender WsClosed "[Connect 2]"]
    everybody_pairing p w
  show ?thesis by blast
qed

subsection \<open>C6: disconnects\<close>

text \<open>
  C6 as stated: the handler of a connection that disconnects clears its slot when the
  connection is still the occupant. Connection 1 joins as sender and then closes its
  websocket: the worker returns and the sender slot still holds connection 1.
\<close>

theorem disconnect_leaves_slot:
  "ws (sender (server (run relay_new [Connect 1, Accepted 1, Recv 1 join_sender, Enter 1]))) = Some 1 \<and>
   ws (sender (server (run relay_new
        [Connect 1, Accepted 1, Recv 1 join_sender, Enter 1, Fail 1 WsClosed]))) = Some 1 \<and>
   workers (run relay_new
        [Connect 1, Accepted 1, Recv 1 join_sender, Enter 1, Fail 1 WsClosed]) 1 = Some Returned"
  by (simp add: unfold_relay frames)

text \<open>
  C6, amended. When a connection disconnects (\<^verbatim>\<open>ws->read\<close> or \<^verbatim>\<open>ws->accept\<close> throws,
  for a close or for any other error), its handler prints a line and returns. It clears
  no slot, whether or not the connection is the occupant: both slots are left exactly as
  they were, so the counterpart's slot is unchanged and a slot that held the connection
  goes on holding it, keeping its stream referenced. The server has no candidate queue
  to discard.
\<close>

theorem disconnect_keeps_slots:
  "server (step s (Fail c e)) = server s \<and>
   (workers s c = Some AtRead \<or> workers s c = Some Handshaking \<longrightarrow>
      workers (step s (Fail c e)) = (workers s)(c \<mapsto> Returned) \<and>
      effects (step s (Fail c e)) = effects s @ catch_clause e) \<and>
   (ws (sender (server s)) = Some c \<or> ws (viewer (server s)) = Some c \<longrightarrow>
      referenced (step s (Fail c e)) c)"
  by (auto simp: referenced_def)

theorem disconnect_keeps_slots_witness:
  "server (step (run relay_new pairing) (Fail 1 WsClosed)) = server (run relay_new pairing) \<and>
   workers (step (run relay_new pairing) (Fail 1 WsClosed)) =
     (workers (run relay_new pairing))(1 \<mapsto> Returned) \<and>
   effects (step (run relay_new pairing) (Fail 1 WsClosed)) =
     effects (run relay_new pairing) @ catch_clause WsClosed \<and>
   referenced (step (run relay_new pairing) (Fail 1 WsClosed)) 1"
proof -
  have "workers (run relay_new pairing) 1 = Some AtRead"
    and "ws (sender (server (run relay_new pairing))) = Some 1"
    by (simp_all add: run_pairing)
  with disconnect_keeps_slots [of "run relay_new pairing" 1 WsClosed] show ?thesis
    by blast
qed

subsection \<open>C7: the first frames of a connection\<close>

lemma log_participants_Inr:
  assumes "log_participants f c s = Inr (s', out)"
  shows "(role_of f = Some (JString ''sender'') \<and> s' = s\<lparr>sender := set_ws (Some c) (sender s)\<rparr>) \<or>
         (role_of f = Some (JString ''viewer'') \<and> s' = s\<lparr>viewer := set_ws (Some c) (viewer s)\<rparr>) \<or>
         s' = s"
  using assms
  by (auto simp: log_participants_def role_of_def json_member_def
      split: option.splits json.splits if_splits)

lemma occupant_sent_role:
  "(ws (sender (server (run relay_new evs))) = Some c \<longrightarrow>
      (\<exists>f. Recv c f \<in> set evs \<and> role_of f = Some (JString ''sender''))) \<and>
   (ws (viewer (server (run relay_new evs))) = Some c \<longrightarrow>
      (\<exists>f. Recv c f \<in> set evs \<and> role_of f = Some (JString ''viewer''))) \<and>
   (\<forall>f. workers (run relay_new evs) c = Some (AtLog f) \<longrightarrow> Recv c f \<in> set evs)"
proof (induction evs rule: rev_induct)
  case Nil
  show ?case by (simp add: relay_new_def server_new_def socket_new_def)
next
  case (snoc ev evs)
  let ?s = "run relay_new evs"
  show ?case
  proof (cases ev)
    case (Connect d)
    with snoc show ?thesis by (auto simp: run_snoc)
  next
    case (Accepted d)
    with snoc show ?thesis by (auto simp: run_snoc)
  next
    case (Recv d g)
    with snoc show ?thesis by (auto simp: run_snoc)
  next
    case (Fail d e)
    with snoc show ?thesis by (auto simp: run_snoc)
  next
    case (Enter d)
    show ?thesis
    proof (cases "\<exists>g. workers ?s d = Some (AtLog g)")
      case False
      then have "step ?s (Enter d) = ?s"
        by (auto split: option.splits worker.splits)
      with snoc Enter show ?thesis by (auto simp: run_snoc simp del: step.simps)
    next
      case True
      then obtain g where g: "workers ?s d = Some (AtLog g)" by blast
      show ?thesis
      proof (cases "log_participants g d (server ?s)")
        case (Inl x)
        with g snoc Enter show ?thesis by (auto simp: run_snoc)
      next
        case (Inr p)
        then obtain srv out where p: "log_participants g d (server ?s) = Inr (srv, out)"
          by (cases p) simp
        from log_participants_Inr [OF p] g snoc p Enter show ?thesis
          by (auto simp: run_snoc set_ws_def)
      qed
    qed
  qed
qed

text \<open>
  C7 as stated: a message other than a join from a connection that has not joined is
  discarded, changes nothing, and leaves the connection open for another try. An offer
  as first frame from connection 1 ends its worker (the offer has no \<^verbatim>\<open>role\<close>): the stream
  is destroyed and a join sent afterwards registers nothing. And a frame that is not a
  join but carries \<^verbatim>\<open>"role":"sender"\<close> registers connection 1 as the sender.
\<close>

theorem non_join_first_frame:
  "workers (run relay_new [Connect 1, Accepted 1, Recv 1 sdp_offer, Enter 1]) 1 = Some Returned \<and>
   destroyed (run relay_new [Connect 1, Accepted 1, Recv 1 sdp_offer, Enter 1]) 1 \<and>
   server (run relay_new [Connect 1, Accepted 1, Recv 1 sdp_offer, Enter 1, Recv 1 join_sender, Enter 1]) =
     server_new \<and>
   type_of offer_as_sender = Some (JString ''offer'') \<and>
   ws (sender (server (run relay_new [Connect 1, Accepted 1, Recv 1 offer_as_sender, Enter 1]))) = Some 1"
  by (simp add: unfold_relay frames destroyed_def referenced_def type_of_def json_member_def)

text \<open>
  C7, amended. A connection occupies a slot only after it has sent a frame whose
  \<^verbatim>\<open>role\<close> names that slot; until then it is in no slot. The \<^verbatim>\<open>type\<close> of a frame is
  never looked at. A frame handled by \<^verbatim>\<open>log_participants\<close> whose \<^verbatim>\<open>role\<close> is
  \<^verbatim>\<open>sender\<close> or \<^verbatim>\<open>viewer\<close> registers the connection, whatever its \<^verbatim>\<open>type\<close>. A frame
  without a string \<^verbatim>\<open>role\<close> (the protocol's offer, answer and candidate among them) makes
  \<^verbatim>\<open>log_participants\<close> throw: both slots stay as they were and the connection's worker
  returns, so that a later frame of the connection is not read.
\<close>

theorem registration_by_role_alone:
  "(ws (sender (server (run relay_new evs))) = Some c \<longrightarrow>
      (\<exists>f. Recv c f \<in> set evs \<and> role_of f = Some (JString ''sender''))) \<and>
   (ws (viewer (server (run relay_new evs))) = Some c \<longrightarrow>
      (\<exists>f. Recv c f \<in> set evs \<and> role_of f = Some (JString ''viewer''))) \<and>
   (workers s c = Some (AtLog f) \<and> role_of f = Some (JString ''sender'') \<longrightarrow>
      ws (sender (server (step s (Enter c)))) = Some c) \<and>
   (workers s c = Some (AtLog f) \<and> role_of f = Some (JString ''viewer'') \<longrightarrow>
      ws (viewer (server (step s (Enter c)))) = Some c) \<and>
   (workers s c = Some (AtLog f) \<and> (\<forall>r. role_of f \<noteq> Some (JString r)) \<longrightarrow>
      server (step s (Enter c)) = server s \<and>
      workers (step s (Enter c)) = (workers s)(c \<mapsto> Returned) \<and>
      step (step s (Enter c)) (Recv c g) = step s (Enter c))"
proof -
  have "server (step s (Enter c)) = server s \<and>
      workers (step s (Enter c)) = (workers s)(c \<mapsto> Returned) \<and>
      step (step s (Enter c)) (Recv c g) = step s (Enter c)"
    if "workers s c = Some (AtLog f)" "\<forall>r. role_of f \<noteq> Some (JString r)"
  proof -
    have st: "step s (Enter c) = emit (catch_clause (thrown f)) (at c Returned s)"
      using that by (rule step_Enter_throws)
    then have "workers (step s (Enter c)) c = Some Returned"
      by (simp del: step.simps)
    then have "step (step s (Enter c)) (Recv c g) = step s (Enter c)"
      by (rule step_Returned)
    with st show ?thesis by (simp del: step.simps)
  qed
  moreover have "ws (sender (server (step s (Enter c)))) = Some c"
    if "workers s c = Some (AtLog f)" "role_of f = Some (JString ''sender'')"
    using step_Enter_sender [OF that] by (simp add: set_ws_def del: step.simps)
  moreover have "ws (viewer (server (step s (Enter c)))) = Some c"
    if "workers s c = Some (AtLog f)" "role_of f = Some (JString ''viewer'')"
    using step_Enter_viewer [OF that] by (simp add: set_ws_def del: step.simps)
  ultimately show ?thesis
    using occupant_sent_role [of evs c] by blast
qed

theorem registration_by_role_alone_witness:
  "(\<exists>f. Recv 2 f \<in> set pairing \<and> role_of f = Some (JString ''viewer'')) \<and>
   ws (sender (server (step (run relay_new [Connect 1, Accepted 1, Recv 1 offer_as_sender]) (Enter 1)))) = Some 1 \<and>
   server (step (run relay_new [Connect 1, Accepted 1, Recv 1 sdp_offer]) (Enter 1)) =
     server (run relay_new [Connect 1, Accepted 1, Recv 1 sdp_offer]) \<and>
   workers (step (run relay_new [Connect 1, Accepted 1, Recv 1 sdp_offer]) (Enter 1)) =
     (workers (run relay_new [Connect 1, Accepted 1, Recv 1 sdp_offer]))(1 \<mapsto> Returned) \<and>
   step (step (run relay_new [Connect 1, Accepted 1, Recv 1 sdp_offer]) (Enter 1)) (Recv 1 join_sender) =
     step (run relay_new [Connect 1, Accepted 1, Recv 1 sdp_offer]) (Enter 1)"
proof -
  have v: "ws (viewer (server (run relay_new pairing))) = Some 2"
    by (simp add: run_pairing)
  have a: "workers (run relay_new [Connect 1, Accepted 1, Recv 1 offer_as_sender]) 1 =
      Some (AtLog offer_as_sender)"
    "role_of offer_as_sender = Some (JString ''sender'')"
    by (simp_all add: unfold_relay role_of_def json_member_def offer_as_sender_def)
  have b: "workers (run relay_new [Connect 1, Accepted 1, Recv 1 sdp_offer]) 1 = Some (AtLog sdp_offer)"
    "\<forall>r. role_of sdp_offer \<noteq> Some (JString r)"
    by (simp_all add: unfold_relay role_of_def json_member_def sdp_offer_def)
  from registration_by_role_alone [of pairing 2
      "run relay_new [Connect 1, Accepted 1, Recv 1 offer_as_sender]" offer_as_sender]
    registration_by_role_alone [of pairing 2
      "run relay_new [Connect 1, Accepted 1, Recv 1 sdp_offer]" sdp_offer join_sender]
  have "\<exists>f. Recv 2 f \<in> set pairing \<and> role_of f = Some (JString ''viewer'')"
    using v by blast
  moreover
  from registration_by_role_alone [of pairing 1
      "run relay_new [Connect 1, Accepted 1, Recv 1 offer_as_sender]" offer_as_sender] a
  have "ws (sender (server (step (run relay_new [Connect 1, Accepted 1, Recv 1 offer_as_sender]) (Enter 1)))) = Some 1"
    by blast
  moreover
  from registration_by_role_alone [of pairing 1
      "run relay_new [Connect 1, Accepted 1, Recv 1 sdp_offer]" sdp_offer join_sender] b
  have "server (step (run relay_new [Connect 1, Accepted 1, Recv 1 sdp_offer]) (Enter 1)) =
     server (run relay_new [Connect 1, Accepted 1, Recv 1 sdp_offer]) \<and>
   workers (step (run relay_new [Connect 1, Accepted 1, Recv 1 sdp_offer]) (Enter 1)) =
     (workers (run relay_new [Connect 1, Accepted 1, Recv 1 sdp_offer]))(1 \<mapsto> Returned) \<and>
   step (step (run relay_new [Connect 1, Accepted 1, Recv 1 sdp_offer]) (Enter 1)) (Recv 1 join_sender) =
     step (run relay_new [Connect 1, Accepted 1, Recv 1 sdp_offer]) (Enter 1)"
    by blast
  ultimately show ?thesis
    by blast
qed

subsection \<open>C8: frames of an unknown type\<close>

text \<open>
  C8 as stated: a message whose \<^verbatim>\<open>type\<close> is none of join, offer, answer and candidate is
  logged and ignored, the registry does not change and the connection stays open. A
  first frame \<^verbatim>\<open>{"type":"ping"}\<close> ends the worker of connection 1 and its stream is
  destroyed; a frame \<^verbatim>\<open>{"type":"ping","role":"sender"}\<close> registers connection 1 as the
  sender.
\<close>

theorem unknown_type_not_ignored:
  "workers (run relay_new [Connect 1, Accepted 1, Recv 1 keepalive, Enter 1]) 1 = Some Returned \<and>
   destroyed (run relay_new [Connect 1, Accepted 1, Recv 1 keepalive, Enter 1]) 1 \<and>
   ws (sender (server relay_new)) = None \<and>
   ws (sender (server (run relay_new [Connect 1, Accepted 1, Recv 1 ping_as_sender, Enter 1]))) = Some 1"
  by (simp add: unfold_relay frames destroyed_def referenced_def)

text \<open>
  C8, amended. For a frame whose \<^verbatim>\<open>type\<close> is a string other than join, offer, answer and
  candidate: no step of the server, then or later, writes a frame to any connection.
  Read while both slots are occupied the frame is only printed and the worker goes on
  reading. Handled while a slot is empty it is treated by its \<^verbatim>\<open>role\<close> alone, as any
  other frame: \<^verbatim>\<open>sender\<close> or \<^verbatim>\<open>viewer\<close> registers the connection in that slot, another
  string changes nothing, and without a string \<^verbatim>\<open>role\<close> the exception of \<^verbatim>\<open>as_string\<close>
  is printed and the worker returns with both slots as they were.
\<close>

theorem unknown_type_by_role:
  assumes "type_of f = Some (JString t)"
    and "t \<noteq> ''join''" and "t \<noteq> ''offer''" and "t \<noteq> ''answer''" and "t \<noteq> ''candidate''"
  shows "sent (run s (Recv c f # Enter c # evs)) = sent s \<and>
         (workers s c = Some AtRead \<and> everybody (server s) \<longrightarrow>
            step s (Recv c f) = emit [Stdout (msg f)] s) \<and>
         (workers s c = Some (AtLog f) \<longrightarrow>
            step s (Enter c) =
              (case role_of f of
                 Some (JString r) \<Rightarrow>
                   if r = ''sender'' then
                     emit [Stdout ''Sender is logged'']
                       (at c AtRead (s\<lparr>server := (server s)\<lparr>sender := \<lparr>ws = Some c\<rparr>\<rparr>\<rparr>))
                   else if r = ''viewer'' then
                     emit [Stdout ''Viewer is logged'']
                       (at c AtRead (s\<lparr>server := (server s)\<lparr>viewer := \<lparr>ws = Some c\<rparr>\<rparr>\<rparr>))
                   else at c AtRead s
               | _ \<Rightarrow> emit [Stderr NotString] (at c Returned s)))"
proof -
  from assms(1) obtain kvs where "parsed f = Some (JObject kvs)"
    by (auto simp: type_of_def json_member_def split: option.splits json.splits)
  then have thrown: "thrown f = NotString"
    by (simp add: thrown_def)
  have "step s (Enter c) =
      (case role_of f of
         Some (JString r) \<Rightarrow>
           if r = ''sender'' then
             emit [Stdout ''Sender is logged'']
               (at c AtRead (s\<lparr>server := (server s)\<lparr>sender := \<lparr>ws = Some c\<rparr>\<rparr>\<rparr>))
           else if r = ''viewer'' then
             emit [Stdout ''Viewer is logged'']
               (at c AtRead (s\<lparr>server := (server s)\<lparr>viewer := \<lparr>ws = Some c\<rparr>\<rparr>\<rparr>))
           else at c AtRead s
       | _ \<Rightarrow> emit [Stderr NotString] (at c Returned s))"
    if w: "workers s c = Some (AtLog f)"
  proof (cases "\<exists>r. role_of f = Some (JString r)")
    case True
    then obtain r where r: "role_of f = Some (JString r)" by blast
    show ?thesis
      using w by (simp add: r log_participants_role emit_def at_def set_ws_def)
  next
    case False
    then have n: "\<forall>r. role_of f \<noteq> Some (JString r)" by simp
    have "step s (Enter c) = emit [Stderr NotString] (at c Returned s)"
      using step_Enter_throws [OF w n] by (simp add: thrown catch_clause_def)
    with n show ?thesis
      by (simp split: option.splits json.splits del: step.simps)
  qed
  then show ?thesis
    by (simp add: sent_run del: run_Cons step.simps) simp
qed

theorem unknown_type_by_role_witness:
  "sent (run (run relay_new pairing) (Recv 1 keepalive # Enter 1 # [Fail 2 WsClosed])) = sent (run relay_new pairing) \<and>
   step (run relay_new pairing) (Recv 1 keepalive) = emit [Stdout (msg keepalive)] (run relay_new pairing) \<and>
   step (run relay_new [Connect 1, Accepted 1, Recv 1 keepalive]) (Enter 1) =
     emit [Stderr NotString] (at 1 Returned (run relay_new [Connect 1, Accepted 1, Recv 1 keepalive]))"
proof -
  have f: "type_of keepalive = Some (JString ''ping'')" "''ping'' \<noteq> ''join''" "''ping'' \<noteq> ''offer''"
    "''ping'' \<noteq> ''answer''" "''ping'' \<noteq> ''candidate''"
    by (simp_all add: type_of_def json_member_def keepalive_def)
  have r: "role_of keepalive = None"
    by (simp add: role_of_def json_member_def keepalive_def)
  have p: "workers (run relay_new pairing) 1 = Some AtRead"
    by (simp add: run_pairing)
  have w: "workers (run relay_new [Connect 1, Accepted 1, Recv 1 keepalive]) 1 = Some (AtLog keepalive)"
    by (simp add: unfold_relay)
  from unknown_type_by_role [OF f, of "run relay_new pairing" 1 "[Fail 2 WsClosed]"]
    everybody_pairing p
  have "sent (run (run relay_new pairing) (Recv 1 keepalive # Enter 1 # [Fail 2 WsClosed])) =
      sent (run relay_new pairing) \<and>
    step (run relay_new pairing) (Recv 1 keepalive) = emit [Stdout (msg keepalive)] (run relay_new pairing)"
    by blast
  moreover
  from unknown_type_by_role [OF f, of "run relay_new [Connect 1, Accepted 1, Recv 1 keepalive]" 1 "[]"] w
  have "step (run relay_new [Connect 1, Accepted 1, Recv 1 keepalive]) (Enter 1) =
     emit [Stderr NotString] (at 1 Returned (run relay_new [Connect 1, Accepted 1, Recv 1 keepalive]))"
    by (simp add: r del: step.simps run_Cons)
  ultimately show ?thesis
    by blast
qed

subsection \<open>C3: candidates\<close>




end
